theory Spec2Isabelle
  imports Complex_Main
begin

section \<open>The graph handed to the simulator\<close>

text \<open>
  The experiments receive a weighted bipartite \<open>nx.Graph\<close>. The simulator itself only
  reads \<open>len(G.nodes)\<close>; everything else about the graph is consumed by the solver.
  A graph is the list of its integer node labels together with its weighted
  agent--item edges.
\<close>

record graph =
  nodes :: "int list"
  edges :: "((int \<times> int) \<times> real) list"

section \<open>Python's \<open>str\<close> on integers\<close>

fun digits :: "nat \<Rightarrow> string" where
  "digits n =
     (if n < 10 then [''0123456789'' ! n]
      else digits (n div 10) @ [''0123456789'' ! (n mod 10)])"

definition str_int :: "int \<Rightarrow> string" where
  "str_int i = (if i < 0 then CHR ''-'' # digits (nat (- i)) else digits (nat i))"

section \<open>The solver module as seen from the simulator\<close>

text \<open>
  \<open>simulator.py\<close> calls ten functions of the module \<open>solver\<close>. They are parameters
  of the model: a record of functions, one field per function called, with the argument
  order of the call sites. An optional argument that a call site leaves out is \<open>None\<close>.
  The type \<open>'m\<close> is what a mechanism returns (a matching), \<open>'e\<close> is the type of
  \<open>epsilon\<close>, and \<open>'d\<close> is what a distortion function returns.
\<close>

record ('m, 'e, 'd) solver =
  serial_dictatorship :: "graph \<Rightarrow> int option \<Rightarrow> 'm"
  partial_max_matching :: "graph \<Rightarrow> int \<Rightarrow> int option \<Rightarrow> 'm"
  modified_max_matching :: "graph \<Rightarrow> string \<Rightarrow> int option \<Rightarrow> 'm"
  top_trading_cycles :: "graph \<Rightarrow> int option \<Rightarrow> 'm"
  epsilon_max_matching :: "graph \<Rightarrow> 'e \<Rightarrow> string option \<Rightarrow> int option \<Rightarrow> 'm"
  twothirds_max_matching :: "graph \<Rightarrow> string \<Rightarrow> int option \<Rightarrow> 'm"
  updated_hybrid_max_matching :: "graph \<Rightarrow> int option \<Rightarrow> 'm"
  reassign_labels :: "graph \<Rightarrow> 'm \<Rightarrow> graph"
  calculate_distortion :: "graph \<Rightarrow> 'm \<Rightarrow> 'd"
  calculate_modified_distortion :: "graph \<Rightarrow> 'm \<Rightarrow> string \<Rightarrow> 'd"

section \<open>The Simulator object\<close>

text \<open>
  \<open>self.history\<close> is a dictionary with six fixed keys, each holding a list; it is a
  record with one field per key. The entries of \<open>'size'\<close> are \<open>int option\<close> because
  one method stores the argument \<open>size\<close> as it was passed, which may be \<open>None\<close>.
\<close>

record 'd history =
  id_hist :: "int list"
  val_index_hist :: "int list"
  size_hist :: "int option list"
  valuation_hist :: "string list"
  algo_hist :: "string list"
  distortion_hist :: "'d list"

record ('ig, 'd) simulator =
  instance_generator :: 'ig
  history :: "'d history"
  sim_id :: int

definition Simulator_init :: "'ig \<Rightarrow> ('ig, 'd) simulator" where
  "Simulator_init instance_generate =
     \<lparr>instance_generator = instance_generate,
      history = \<lparr>id_hist = [], val_index_hist = [], size_hist = [],
                 valuation_hist = [], algo_hist = [], distortion_hist = []\<rparr>,
      sim_id = 1\<rparr>"

text \<open>\<open>self.history[key].append(v)\<close>, one function per key.\<close>

definition append_id :: "int \<Rightarrow> ('ig, 'd) simulator \<Rightarrow> ('ig, 'd) simulator" where
  "append_id v s = s\<lparr>history := (history s)\<lparr>id_hist := id_hist (history s) @ [v]\<rparr>\<rparr>"

definition append_val_index :: "int \<Rightarrow> ('ig, 'd) simulator \<Rightarrow> ('ig, 'd) simulator" where
  "append_val_index v s =
     s\<lparr>history := (history s)\<lparr>val_index_hist := val_index_hist (history s) @ [v]\<rparr>\<rparr>"

definition append_size :: "int option \<Rightarrow> ('ig, 'd) simulator \<Rightarrow> ('ig, 'd) simulator" where
  "append_size v s = s\<lparr>history := (history s)\<lparr>size_hist := size_hist (history s) @ [v]\<rparr>\<rparr>"

definition append_valuation :: "string \<Rightarrow> ('ig, 'd) simulator \<Rightarrow> ('ig, 'd) simulator" where
  "append_valuation v s =
     s\<lparr>history := (history s)\<lparr>valuation_hist := valuation_hist (history s) @ [v]\<rparr>\<rparr>"

definition append_algo :: "string \<Rightarrow> ('ig, 'd) simulator \<Rightarrow> ('ig, 'd) simulator" where
  "append_algo v s = s\<lparr>history := (history s)\<lparr>algo_hist := algo_hist (history s) @ [v]\<rparr>\<rparr>"

definition append_distortion :: "'d \<Rightarrow> ('ig, 'd) simulator \<Rightarrow> ('ig, 'd) simulator" where
  "append_distortion v s =
     s\<lparr>history := (history s)\<lparr>distortion_hist := distortion_hist (history s) @ [v]\<rparr>\<rparr>"

text \<open>\<open>self.id += 1\<close>\<close>

definition incr_id :: "('ig, 'd) simulator \<Rightarrow> ('ig, 'd) simulator" where
  "incr_id s = s\<lparr>sim_id := sim_id s + 1\<rparr>"

text \<open>\<open>if size is None: size = len(G.nodes)//2\<close>\<close>

definition default_size :: "graph \<Rightarrow> int option \<Rightarrow> int" where
  "default_size G size_arg =
     (case size_arg of None \<Rightarrow> int (length (nodes G)) div 2 | Some n \<Rightarrow> n)"

section \<open>The experiment methods\<close>

text \<open>
  Each method is a function from the simulator before the call to the simulator after
  it. The statements are kept in the order of the source.
\<close>

definition serial_dictatorship_experiment ::
  "('m, 'e, 'd) solver \<Rightarrow> int \<Rightarrow> string \<Rightarrow> graph \<Rightarrow> int option \<Rightarrow> int option \<Rightarrow>
   ('ig, 'd) simulator \<Rightarrow> ('ig, 'd) simulator" where
  "serial_dictatorship_experiment sv val_index val_type G size_arg agent_cap s =
     (let size' = default_size G size_arg;
          M = serial_dictatorship sv G agent_cap;
          s = append_id (sim_id s) s;
          s = incr_id s;
          s = append_val_index val_index s;
          s = append_size (Some size') s;
          s = append_valuation val_type s;
          s = append_algo ''serial_dictatorship'' s
      in append_distortion (calculate_modified_distortion sv G M ''pareto'') s)"

definition partial_max_matching_experiment ::
  "('m, 'e, 'd) solver \<Rightarrow> int \<Rightarrow> string \<Rightarrow> graph \<Rightarrow> int \<Rightarrow> int option \<Rightarrow> int option \<Rightarrow>
   ('ig, 'd) simulator \<Rightarrow> ('ig, 'd) simulator" where
  "partial_max_matching_experiment sv val_index val_type G m size_arg agent_cap s =
     (let size' = default_size G size_arg;
          M = partial_max_matching sv G m agent_cap;
          H = reassign_labels sv G M;
          M_0 = top_trading_cycles sv H None;
          s = append_id (sim_id s) s;
          s = incr_id s;
          s = append_val_index val_index s;
          s = append_size (Some size') s;
          s = append_valuation val_type s;
          s = append_algo (''partial_max_matching'' @ ''_'' @ str_int m) s
      in append_distortion (calculate_distortion sv G M_0) s)"

definition modified_max_matching_experiment ::
  "('m, 'e, 'd) solver \<Rightarrow> int \<Rightarrow> string \<Rightarrow> graph \<Rightarrow> string \<Rightarrow> int option \<Rightarrow> int option \<Rightarrow>
   ('ig, 'd) simulator \<Rightarrow> ('ig, 'd) simulator" where
  "modified_max_matching_experiment sv val_index val_type G prio size_arg agent_cap s =
     (let size' = default_size G size_arg;
          M_0 = modified_max_matching sv G prio agent_cap;
          s = append_id (sim_id s) s;
          s = incr_id s;
          s = append_val_index val_index s;
          s = append_size (Some size') s;
          s = append_valuation val_type s;
          s = append_algo ''modified_max_matching'' s
      in append_distortion (calculate_modified_distortion sv G M_0 prio) s)"

definition top_trading_cycles_experiment ::
  "('m, 'e, 'd) solver \<Rightarrow> int \<Rightarrow> string \<Rightarrow> graph \<Rightarrow> int option \<Rightarrow> int option \<Rightarrow>
   ('ig, 'd) simulator \<Rightarrow> ('ig, 'd) simulator" where
  "top_trading_cycles_experiment sv val_index val_type G size_arg agent_cap s =
     (let size' = default_size G size_arg;
          M = top_trading_cycles sv G agent_cap;
          s = append_id (sim_id s) s;
          s = incr_id s;
          s = append_val_index val_index s;
          s = append_size (Some size') s;
          s = append_valuation val_type s;
          s = append_algo ''ttc_matching'' s
      in append_distortion (calculate_modified_distortion sv G M ''pareto'') s)"

text \<open>
  \<open>str(epsilon)\<close>: \<open>epsilon\<close> is whatever number the caller passes (the driver passes
  \<open>1\<close> and \<open>0.1\<close>), so Python's \<open>str\<close> at that type is the parameter \<open>str\<close>.
\<close>

definition epsilon_max_matching_experiment ::
  "('m, 'e, 'd) solver \<Rightarrow> ('e \<Rightarrow> string) \<Rightarrow> int \<Rightarrow> string \<Rightarrow> graph \<Rightarrow> 'e \<Rightarrow>
   int option \<Rightarrow> int option \<Rightarrow> ('ig, 'd) simulator \<Rightarrow> ('ig, 'd) simulator" where
  "epsilon_max_matching_experiment sv str val_index val_type G epsilon size_arg agent_cap s =
     (let size' = default_size G size_arg;
          M = epsilon_max_matching sv G epsilon None agent_cap;
          H = reassign_labels sv G M;
          M_0 = top_trading_cycles sv H None;
          s = append_id (sim_id s) s;
          s = incr_id s;
          s = append_val_index val_index s;
          s = append_size (Some size') s;
          s = append_valuation val_type s;
          s = append_algo (''epsilon_max_matching'' @ str epsilon) s
      in append_distortion (calculate_distortion sv G M_0) s)"

definition epsilon_max_matching_prio_experiment ::
  "('m, 'e, 'd) solver \<Rightarrow> ('e \<Rightarrow> string) \<Rightarrow> int \<Rightarrow> string \<Rightarrow> graph \<Rightarrow> 'e \<Rightarrow> string \<Rightarrow>
   int option \<Rightarrow> int option \<Rightarrow> ('ig, 'd) simulator \<Rightarrow> ('ig, 'd) simulator" where
  "epsilon_max_matching_prio_experiment sv str val_index val_type G epsilon prio size_arg
       agent_cap s =
     (let size' = default_size G size_arg;
          M = epsilon_max_matching sv G epsilon (Some prio) agent_cap;
          s = append_id (sim_id s) s;
          s = incr_id s;
          s = append_val_index val_index s;
          s = append_size (Some size') s;
          s = append_valuation val_type s;
          s = append_algo (''epsilon_max_matching '' @ prio @ str epsilon) s
      in append_distortion (calculate_modified_distortion sv G M prio) s)"

definition twothirds_max_matching_experiment ::
  "('m, 'e, 'd) solver \<Rightarrow> int \<Rightarrow> string \<Rightarrow> graph \<Rightarrow> string \<Rightarrow> int option \<Rightarrow> int option \<Rightarrow>
   ('ig, 'd) simulator \<Rightarrow> ('ig, 'd) simulator" where
  "twothirds_max_matching_experiment sv val_index val_type G prio size_arg agent_cap s =
     (let M = twothirds_max_matching sv G prio agent_cap;
          s = append_id (sim_id s) s;
          s = incr_id s;
          s = append_val_index val_index s;
          s = append_size size_arg s;
          s = append_valuation val_type s;
          s = append_algo (''twothirds_max_matching '' @ prio) s
      in append_distortion (calculate_modified_distortion sv G M prio) s)"

definition updated_hybrid_max_matching_experiment ::
  "('m, 'e, 'd) solver \<Rightarrow> int \<Rightarrow> string \<Rightarrow> graph \<Rightarrow> int option \<Rightarrow> int option \<Rightarrow>
   ('ig, 'd) simulator \<Rightarrow> ('ig, 'd) simulator" where
  "updated_hybrid_max_matching_experiment sv val_index val_type G size_arg agent_cap s =
     (let size' = default_size G size_arg;
          M = updated_hybrid_max_matching sv G agent_cap;
          H = reassign_labels sv G M;
          M_0 = top_trading_cycles sv H None;
          s = append_id (sim_id s) s;
          s = incr_id s;
          s = append_val_index val_index s;
          s = append_size (Some size') s;
          s = append_valuation val_type s;
          s = append_algo ''updated_hybrid_max_matching'' s
      in append_distortion (calculate_modified_distortion sv G M_0 ''pareto'') s)"

section \<open>The solver core, modelled from the specification\<close>

text \<open>
  \<open>solver.py\<close> is not among the sources. The definitions of this section follow the
  words of the specification (sections 3, 4.5, 4.6, 4.9 and 7) and are used only for the
  claims about \<open>calculate_distortion\<close>, \<open>modified_max_matching\<close> and
  \<open>epsilon_max_matching\<close>; the experiment methods above never refer to them.

  A matching is a list of agent--item pairs without repetition. The partition into
  agents and items is the orientation of the pairs: the first component is the agent.
  A value of type \<open>graph\<close> is a graph that the Graph Model has accepted, so the mechanisms
  do not validate it again.
\<close>

type_synonym matching = "(int \<times> int) list"

text \<open>
  Modelled from the spec: the pairs of \<open>G\<close> that carry a weight, each once, and the
  weight of a pair (section 3, Graph). A pair without an edge weighs nothing.
\<close>

definition pairs :: "graph \<Rightarrow> (int \<times> int) list" where
  "pairs G = remdups (map fst (edges G))"

definition weight :: "graph \<Rightarrow> int \<times> int \<Rightarrow> real" where
  "weight G e = (case map_of (edges G) e of None \<Rightarrow> 0 | Some w \<Rightarrow> w)"

text \<open>
  Modelled from the spec: the invariant of section 3 that every weight is non-negative.
\<close>

definition nonneg_weights :: "graph \<Rightarrow> bool" where
  "nonneg_weights G = list_all (\<lambda>ew. 0 \<le> snd ew) (edges G)"

text \<open>
  Modelled from the spec: a Matching (section 3) has each agent and each item in at most
  one pair, and it is feasible for \<open>G\<close> when every pair is an edge of \<open>G\<close>.
\<close>

definition is_matching :: "matching \<Rightarrow> bool" where
  "is_matching M = (distinct (map fst M) \<and> distinct (map snd M))"

definition feasible :: "graph \<Rightarrow> matching \<Rightarrow> bool" where
  "feasible G M = (is_matching M \<and> set M \<subseteq> set (pairs G))"

text \<open>
  Modelled from the spec: \<open>welfare (G, M)\<close> is the total weight of the pairs in \<open>M\<close>,
  and \<open>OPT (G)\<close> is the maximum of the welfare over all feasible matchings of \<open>G\<close>
  (section 4.9). The feasible matchings are enumerated as the sublists of the pairs of
  \<open>G\<close> that are matchings; that every feasible matching has the welfare of an
  enumerated one is proved below (\<open>OPT_ge\<close>).
\<close>

definition welfare :: "graph \<Rightarrow> matching \<Rightarrow> real" where
  "welfare G M = sum_list (map (weight G) M)"

definition all_matchings :: "graph \<Rightarrow> matching list" where
  "all_matchings G = filter is_matching (subseqs (pairs G))"

definition OPT :: "graph \<Rightarrow> real" where
  "OPT G = Max (set (map (welfare G) (all_matchings G)))"

text \<open>
  Modelled from the spec: \<open>calculate_distortion (G, M)\<close> of section 4.9, which is
  missing with \<open>solver.py\<close>. It returns \<open>OPT (G) / welfare (G, M)\<close>. By section 7 it
  fails, with an element of the error taxonomy and not with a number, when
  \<open>OPT (G) = 0\<close> or when \<open>M\<close> is infeasible for \<open>G\<close>: that is \<open>None\<close>. For a
  welfare of zero section 4.9 asks for a documented sentinel; here the ratio is reported
  as unbounded.
\<close>

datatype distortion = Ratio real | Unbounded

definition at_least_one :: "distortion \<Rightarrow> bool" where
  "at_least_one d = (case d of Ratio r \<Rightarrow> 1 \<le> r | Unbounded \<Rightarrow> True)"

definition calculate_distortion_spec :: "graph \<Rightarrow> matching \<Rightarrow> distortion option" where
  "calculate_distortion_spec G M =
     (if \<not> feasible G M \<or> OPT G = 0 then None
      else if welfare G M = 0 then Some Unbounded
      else Some (Ratio (OPT G / welfare G M)))"

text \<open>
  Modelled from the spec: the error taxonomy of section 7 and the enumeration of
  section 3 for \<open>prio\<close>.
\<close>

datatype error = InvalidGraphError | InvalidConfigurationError | NoFeasibleMatchingError

definition recognized_prio :: "string list" where
  "recognized_prio = [''pareto'', ''rank_maximal'', ''max_cardinality_rank_maximal'', ''fair'']"

text \<open>
  Modelled from the spec: \<open>modified_max_matching (G, prio)\<close> of section 4.5, which is
  missing with \<open>solver.py\<close>. Among all weight-optimal matchings it selects one according
  to \<open>prio\<close>. The rule by which a \<open>prio\<close> picks among the candidates is the parameter
  \<open>select\<close>; the specification fixes four such rules, and the claims only use that a
  rule returns one of the candidates it is given (\<open>selects_candidate\<close>). An unknown
  \<open>prio\<close> is an \<open>InvalidConfigurationError\<close> (section 7).
\<close>

definition modified_max_matching_spec ::
  "(string \<Rightarrow> matching list \<Rightarrow> matching) \<Rightarrow> graph \<Rightarrow> string \<Rightarrow> error + matching" where
  "modified_max_matching_spec select G prio =
     (if prio \<notin> set recognized_prio then Inl InvalidConfigurationError
      else case filter (\<lambda>M. welfare G M = OPT G) (all_matchings G) of
             [] \<Rightarrow> Inl NoFeasibleMatchingError
           | M # Ms \<Rightarrow> Inr (select prio (M # Ms)))"

text \<open>
  Modelled from the spec: \<open>epsilon_max_matching (G, epsilon, prio)\<close> of section 4.6,
  which is missing with \<open>solver.py\<close>. Among all matchings whose total weight is within
  the factor \<open>1 - epsilon\<close> of the maximum it applies the selection rule of section 4.5.
  An \<open>epsilon\<close> outside \<open>(0, 1]\<close> and an unknown \<open>prio\<close> are an
  \<open>InvalidConfigurationError\<close>; no matching meeting the bound would be a
  \<open>NoFeasibleMatchingError\<close> (section 7).
\<close>

definition epsilon_max_matching_spec ::
  "(string \<Rightarrow> matching list \<Rightarrow> matching) \<Rightarrow> graph \<Rightarrow> real \<Rightarrow> string \<Rightarrow> error + matching" where
  "epsilon_max_matching_spec select G epsilon prio =
     (if \<not> (0 < epsilon \<and> epsilon \<le> 1) \<or> prio \<notin> set recognized_prio
      then Inl InvalidConfigurationError
      else case filter (\<lambda>M. (1 - epsilon) * OPT G \<le> welfare G M) (all_matchings G) of
             [] \<Rightarrow> Inl NoFeasibleMatchingError
           | M # Ms \<Rightarrow> Inr (select prio (M # Ms)))"

definition selects_candidate :: "(string \<Rightarrow> matching list \<Rightarrow> matching) \<Rightarrow> bool" where
  "selects_candidate select =
     (\<forall>prio cands. cands \<noteq> [] \<longrightarrow> select prio cands \<in> set cands)"

text \<open>The simplest selection rule: the first candidate in the order of enumeration.\<close>

definition first_candidate :: "string \<Rightarrow> matching list \<Rightarrow> matching" where
  "first_candidate prio cands = hd cands"

text \<open>
  Two instances. \<open>example_graph\<close> is the example of section 8 of the specification with
  agents 0, 1 and items 2, 3. \<open>zero_graph\<close> has one edge, of weight zero.
\<close>

definition example_graph :: graph where
  "example_graph =
     \<lparr>nodes = [0, 1, 2, 3],
      edges = [((0, 2), 3), ((0, 3), 1), ((1, 2), 2), ((1, 3), 4)]\<rparr>"

definition zero_graph :: graph where
  "zero_graph = \<lparr>nodes = [0, 1], edges = [((0, 1), 0)]\<rparr>"

section \<open>Experiment calls with the effects of the solver calls\<close>

text \<open>
  A call of a solver function is a Python call: it may raise instead of returning, and
  it receives the graph object itself, not a copy. Here both are explicit. Every solver
  function returns a pair: the outcome of the call, \<open>Inl x\<close> when it raises \<open>x\<close> and
  \<open>Inr v\<close> when it returns \<open>v\<close>, and the graph it was given as the call leaves it.
  The functions are again parameters, since \<open>solver.py\<close> is not among the sources.
  The graph \<open>H\<close> that \<open>reassign_labels\<close> returns is an object of its own (section 3 of
  the specification: created per call), so what \<open>top_trading_cycles\<close> does to \<open>H\<close> does
  not reach \<open>G\<close>.
\<close>

record ('m, 'e, 'd, 'x) solver_calls =
  call_serial_dictatorship :: "graph \<Rightarrow> int option \<Rightarrow> ('x + 'm) \<times> graph"
  call_partial_max_matching :: "graph \<Rightarrow> int \<Rightarrow> int option \<Rightarrow> ('x + 'm) \<times> graph"
  call_modified_max_matching :: "graph \<Rightarrow> string \<Rightarrow> int option \<Rightarrow> ('x + 'm) \<times> graph"
  call_top_trading_cycles :: "graph \<Rightarrow> int option \<Rightarrow> ('x + 'm) \<times> graph"
  call_epsilon_max_matching ::
    "graph \<Rightarrow> 'e \<Rightarrow> string option \<Rightarrow> int option \<Rightarrow> ('x + 'm) \<times> graph"
  call_twothirds_max_matching :: "graph \<Rightarrow> string \<Rightarrow> int option \<Rightarrow> ('x + 'm) \<times> graph"
  call_updated_hybrid_max_matching :: "graph \<Rightarrow> int option \<Rightarrow> ('x + 'm) \<times> graph"
  call_reassign_labels :: "graph \<Rightarrow> 'm \<Rightarrow> ('x + graph) \<times> graph"
  call_calculate_distortion :: "graph \<Rightarrow> 'm \<Rightarrow> ('x + 'd) \<times> graph"
  call_calculate_modified_distortion :: "graph \<Rightarrow> 'm \<Rightarrow> string \<Rightarrow> ('x + 'd) \<times> graph"

text \<open>
  What a call of an experiment method leaves behind: the exception that left the method,
  if any, the graph \<open>G\<close> and the simulator. No method catches an exception, so the first
  solver call that raises ends the method with the simulator as it is at that point.
\<close>

record ('x, 'ig, 'd) outcome =
  raised :: "'x option"
  graph_after :: graph
  sim_after :: "('ig, 'd) simulator"

definition call_serial_dictatorship_experiment ::
  "('m, 'e, 'd, 'x) solver_calls \<Rightarrow> int \<Rightarrow> string \<Rightarrow> graph \<Rightarrow> int option \<Rightarrow> int option \<Rightarrow>
   ('ig, 'd) simulator \<Rightarrow> ('x, 'ig, 'd) outcome" where
  "call_serial_dictatorship_experiment sc val_index val_type G size_arg agent_cap s =
     (let size' = default_size G size_arg in
      (case call_serial_dictatorship sc G agent_cap of
         (Inl x, G) \<Rightarrow> \<lparr>raised = Some x, graph_after = G, sim_after = s\<rparr>
       | (Inr M, G) \<Rightarrow>
           (let s = append_id (sim_id s) s;
                s = incr_id s;
                s = append_val_index val_index s;
                s = append_size (Some size') s;
                s = append_valuation val_type s;
                s = append_algo ''serial_dictatorship'' s
            in (case call_calculate_modified_distortion sc G M ''pareto'' of
                  (Inl x, G) \<Rightarrow> \<lparr>raised = Some x, graph_after = G, sim_after = s\<rparr>
                | (Inr d, G) \<Rightarrow>
                    \<lparr>raised = None, graph_after = G, sim_after = append_distortion d s\<rparr>))))"

definition call_partial_max_matching_experiment ::
  "('m, 'e, 'd, 'x) solver_calls \<Rightarrow> int \<Rightarrow> string \<Rightarrow> graph \<Rightarrow> int \<Rightarrow> int option \<Rightarrow>
   int option \<Rightarrow> ('ig, 'd) simulator \<Rightarrow> ('x, 'ig, 'd) outcome" where
  "call_partial_max_matching_experiment sc val_index val_type G m size_arg agent_cap s =
     (let size' = default_size G size_arg in
      (case call_partial_max_matching sc G m agent_cap of
         (Inl x, G) \<Rightarrow> \<lparr>raised = Some x, graph_after = G, sim_after = s\<rparr>
       | (Inr M, G) \<Rightarrow>
      (case call_reassign_labels sc G M of
         (Inl x, G) \<Rightarrow> \<lparr>raised = Some x, graph_after = G, sim_after = s\<rparr>
       | (Inr H, G) \<Rightarrow>
      (case call_top_trading_cycles sc H None of
         (Inl x, H) \<Rightarrow> \<lparr>raised = Some x, graph_after = G, sim_after = s\<rparr>
       | (Inr M_0, H) \<Rightarrow>
           (let s = append_id (sim_id s) s;
                s = incr_id s;
                s = append_val_index val_index s;
                s = append_size (Some size') s;
                s = append_valuation val_type s;
                s = append_algo (''partial_max_matching'' @ ''_'' @ str_int m) s
            in (case call_calculate_distortion sc G M_0 of
                  (Inl x, G) \<Rightarrow> \<lparr>raised = Some x, graph_after = G, sim_after = s\<rparr>
                | (Inr d, G) \<Rightarrow>
                    \<lparr>raised = None, graph_after = G, sim_after = append_distortion d s\<rparr>))))))"

definition call_modified_max_matching_experiment ::
  "('m, 'e, 'd, 'x) solver_calls \<Rightarrow> int \<Rightarrow> string \<Rightarrow> graph \<Rightarrow> string \<Rightarrow> int option \<Rightarrow>
   int option \<Rightarrow> ('ig, 'd) simulator \<Rightarrow> ('x, 'ig, 'd) outcome" where
  "call_modified_max_matching_experiment sc val_index val_type G prio size_arg agent_cap s =
     (let size' = default_size G size_arg in
      (case call_modified_max_matching sc G prio agent_cap of
         (Inl x, G) \<Rightarrow> \<lparr>raised = Some x, graph_after = G, sim_after = s\<rparr>
       | (Inr M_0, G) \<Rightarrow>
           (let s = append_id (sim_id s) s;
                s = incr_id s;
                s = append_val_index val_index s;
                s = append_size (Some size') s;
                s = append_valuation val_type s;
                s = append_algo ''modified_max_matching'' s
            in (case call_calculate_modified_distortion sc G M_0 prio of
                  (Inl x, G) \<Rightarrow> \<lparr>raised = Some x, graph_after = G, sim_after = s\<rparr>
                | (Inr d, G) \<Rightarrow>
                    \<lparr>raised = None, graph_after = G, sim_after = append_distortion d s\<rparr>))))"

definition call_top_trading_cycles_experiment ::
  "('m, 'e, 'd, 'x) solver_calls \<Rightarrow> int \<Rightarrow> string \<Rightarrow> graph \<Rightarrow> int option \<Rightarrow> int option \<Rightarrow>
   ('ig, 'd) simulator \<Rightarrow> ('x, 'ig, 'd) outcome" where
  "call_top_trading_cycles_experiment sc val_index val_type G size_arg agent_cap s =
     (let size' = default_size G size_arg in
      (case call_top_trading_cycles sc G agent_cap of
         (Inl x, G) \<Rightarrow> \<lparr>raised = Some x, graph_after = G, sim_after = s\<rparr>
       | (Inr M, G) \<Rightarrow>
           (let s = append_id (sim_id s) s;
                s = incr_id s;
                s = append_val_index val_index s;
                s = append_size (Some size') s;
                s = append_valuation val_type s;
                s = append_algo ''ttc_matching'' s
            in (case call_calculate_modified_distortion sc G M ''pareto'' of
                  (Inl x, G) \<Rightarrow> \<lparr>raised = Some x, graph_after = G, sim_after = s\<rparr>
                | (Inr d, G) \<Rightarrow>
                    \<lparr>raised = None, graph_after = G, sim_after = append_distortion d s\<rparr>))))"

definition call_epsilon_max_matching_experiment ::
  "('m, 'e, 'd, 'x) solver_calls \<Rightarrow> ('e \<Rightarrow> string) \<Rightarrow> int \<Rightarrow> string \<Rightarrow> graph \<Rightarrow> 'e \<Rightarrow>
   int option \<Rightarrow> int option \<Rightarrow> ('ig, 'd) simulator \<Rightarrow> ('x, 'ig, 'd) outcome" where
  "call_epsilon_max_matching_experiment sc str val_index val_type G epsilon size_arg
       agent_cap s =
     (let size' = default_size G size_arg in
      (case call_epsilon_max_matching sc G epsilon None agent_cap of
         (Inl x, G) \<Rightarrow> \<lparr>raised = Some x, graph_after = G, sim_after = s\<rparr>
       | (Inr M, G) \<Rightarrow>
      (case call_reassign_labels sc G M of
         (Inl x, G) \<Rightarrow> \<lparr>raised = Some x, graph_after = G, sim_after = s\<rparr>
       | (Inr H, G) \<Rightarrow>
      (case call_top_trading_cycles sc H None of
         (Inl x, H) \<Rightarrow> \<lparr>raised = Some x, graph_after = G, sim_after = s\<rparr>
       | (Inr M_0, H) \<Rightarrow>
           (let s = append_id (sim_id s) s;
                s = incr_id s;
                s = append_val_index val_index s;
                s = append_size (Some size') s;
                s = append_valuation val_type s;
                s = append_algo (''epsilon_max_matching'' @ str epsilon) s
            in (case call_calculate_distortion sc G M_0 of
                  (Inl x, G) \<Rightarrow> \<lparr>raised = Some x, graph_after = G, sim_after = s\<rparr>
                | (Inr d, G) \<Rightarrow>
                    \<lparr>raised = None, graph_after = G, sim_after = append_distortion d s\<rparr>))))))"

definition call_epsilon_max_matching_prio_experiment ::
  "('m, 'e, 'd, 'x) solver_calls \<Rightarrow> ('e \<Rightarrow> string) \<Rightarrow> int \<Rightarrow> string \<Rightarrow> graph \<Rightarrow> 'e \<Rightarrow>
   string \<Rightarrow> int option \<Rightarrow> int option \<Rightarrow> ('ig, 'd) simulator \<Rightarrow> ('x, 'ig, 'd) outcome" where
  "call_epsilon_max_matching_prio_experiment sc str val_index val_type G epsilon prio size_arg
       agent_cap s =
     (let size' = default_size G size_arg in
      (case call_epsilon_max_matching sc G epsilon (Some prio) agent_cap of
         (Inl x, G) \<Rightarrow> \<lparr>raised = Some x, graph_after = G, sim_after = s\<rparr>
       | (Inr M, G) \<Rightarrow>
           (let s = append_id (sim_id s) s;
                s = incr_id s;
                s = append_val_index val_index s;
                s = append_size (Some size') s;
                s = append_valuation val_type s;
                s = append_algo (''epsilon_max_matching '' @ prio @ str epsilon) s
            in (case call_calculate_modified_distortion sc G M prio of
                  (Inl x, G) \<Rightarrow> \<lparr>raised = Some x, graph_after = G, sim_after = s\<rparr>
                | (Inr d, G) \<Rightarrow>
                    \<lparr>raised = None, graph_after = G, sim_after = append_distortion d s\<rparr>))))"

definition call_twothirds_max_matching_experiment ::
  "('m, 'e, 'd, 'x) solver_calls \<Rightarrow> int \<Rightarrow> string \<Rightarrow> graph \<Rightarrow> string \<Rightarrow> int option \<Rightarrow>
   int option \<Rightarrow> ('ig, 'd) simulator \<Rightarrow> ('x, 'ig, 'd) outcome" where
  "call_twothirds_max_matching_experiment sc val_index val_type G prio size_arg agent_cap s =
     (case call_twothirds_max_matching sc G prio agent_cap of
        (Inl x, G) \<Rightarrow> \<lparr>raised = Some x, graph_after = G, sim_after = s\<rparr>
      | (Inr M, G) \<Rightarrow>
          (let s = append_id (sim_id s) s;
               s = incr_id s;
               s = append_val_index val_index s;
               s = append_size size_arg s;
               s = append_valuation val_type s;
               s = append_algo (''twothirds_max_matching '' @ prio) s
           in (case call_calculate_modified_distortion sc G M prio of
                 (Inl x, G) \<Rightarrow> \<lparr>raised = Some x, graph_after = G, sim_after = s\<rparr>
               | (Inr d, G) \<Rightarrow>
                   \<lparr>raised = None, graph_after = G, sim_after = append_distortion d s\<rparr>)))"

definition call_updated_hybrid_max_matching_experiment ::
  "('m, 'e, 'd, 'x) solver_calls \<Rightarrow> int \<Rightarrow> string \<Rightarrow> graph \<Rightarrow> int option \<Rightarrow> int option \<Rightarrow>
   ('ig, 'd) simulator \<Rightarrow> ('x, 'ig, 'd) outcome" where
  "call_updated_hybrid_max_matching_experiment sc val_index val_type G size_arg agent_cap s =
     (let size' = default_size G size_arg in
      (case call_updated_hybrid_max_matching sc G agent_cap of
         (Inl x, G) \<Rightarrow> \<lparr>raised = Some x, graph_after = G, sim_after = s\<rparr>
       | (Inr M, G) \<Rightarrow>
      (case call_reassign_labels sc G M of
         (Inl x, G) \<Rightarrow> \<lparr>raised = Some x, graph_after = G, sim_after = s\<rparr>
       | (Inr H, G) \<Rightarrow>
      (case call_top_trading_cycles sc H None of
         (Inl x, H) \<Rightarrow> \<lparr>raised = Some x, graph_after = G, sim_after = s\<rparr>
       | (Inr M_0, H) \<Rightarrow>
           (let s = append_id (sim_id s) s;
                s = incr_id s;
                s = append_val_index val_index s;
                s = append_size (Some size') s;
                s = append_valuation val_type s;
                s = append_algo ''updated_hybrid_max_matching'' s
            in (case call_calculate_modified_distortion sc G M_0 ''pareto'' of
                  (Inl x, G) \<Rightarrow> \<lparr>raised = Some x, graph_after = G, sim_after = s\<rparr>
                | (Inr d, G) \<Rightarrow>
                    \<lparr>raised = None, graph_after = G, sim_after = append_distortion d s\<rparr>))))))"

subsection \<open>Sequences of experiment calls\<close>

text \<open>
  One constructor per experiment method, carrying the arguments of the call; the graph
  is the graph as it is when the call is made. A driver such as the \<open>__main__\<close> block
  is a list of such calls run from left to right on the simulator that
  \<open>Simulator_init\<close> made. It has no \<open>try\<close>, so it stops at the first call that raises.
\<close>

datatype 'e experiment_call =
    SerialDictatorship int string graph "int option" "int option"
  | PartialMaxMatching int string graph int "int option" "int option"
  | ModifiedMaxMatching int string graph string "int option" "int option"
  | TopTradingCycles int string graph "int option" "int option"
  | EpsilonMaxMatching int string graph 'e "int option" "int option"
  | EpsilonMaxMatchingPrio int string graph 'e string "int option" "int option"
  | TwothirdsMaxMatching int string graph string "int option" "int option"
  | UpdatedHybridMaxMatching int string graph "int option" "int option"

fun graph_of :: "'e experiment_call \<Rightarrow> graph" where
  "graph_of (SerialDictatorship vi vt G sz ac) = G"
| "graph_of (PartialMaxMatching vi vt G m sz ac) = G"
| "graph_of (ModifiedMaxMatching vi vt G prio sz ac) = G"
| "graph_of (TopTradingCycles vi vt G sz ac) = G"
| "graph_of (EpsilonMaxMatching vi vt G eps sz ac) = G"
| "graph_of (EpsilonMaxMatchingPrio vi vt G eps prio sz ac) = G"
| "graph_of (TwothirdsMaxMatching vi vt G prio sz ac) = G"
| "graph_of (UpdatedHybridMaxMatching vi vt G sz ac) = G"

fun run_experiment ::
  "('m, 'e, 'd, 'x) solver_calls \<Rightarrow> ('e \<Rightarrow> string) \<Rightarrow> 'e experiment_call \<Rightarrow>
   ('ig, 'd) simulator \<Rightarrow> ('x, 'ig, 'd) outcome" where
  "run_experiment sc str (SerialDictatorship vi vt G sz ac) s =
     call_serial_dictatorship_experiment sc vi vt G sz ac s"
| "run_experiment sc str (PartialMaxMatching vi vt G m sz ac) s =
     call_partial_max_matching_experiment sc vi vt G m sz ac s"
| "run_experiment sc str (ModifiedMaxMatching vi vt G prio sz ac) s =
     call_modified_max_matching_experiment sc vi vt G prio sz ac s"
| "run_experiment sc str (TopTradingCycles vi vt G sz ac) s =
     call_top_trading_cycles_experiment sc vi vt G sz ac s"
| "run_experiment sc str (EpsilonMaxMatching vi vt G eps sz ac) s =
     call_epsilon_max_matching_experiment sc str vi vt G eps sz ac s"
| "run_experiment sc str (EpsilonMaxMatchingPrio vi vt G eps prio sz ac) s =
     call_epsilon_max_matching_prio_experiment sc str vi vt G eps prio sz ac s"
| "run_experiment sc str (TwothirdsMaxMatching vi vt G prio sz ac) s =
     call_twothirds_max_matching_experiment sc vi vt G prio sz ac s"
| "run_experiment sc str (UpdatedHybridMaxMatching vi vt G sz ac) s =
     call_updated_hybrid_max_matching_experiment sc vi vt G sz ac s"

fun run_experiments ::
  "('m, 'e, 'd, 'x) solver_calls \<Rightarrow> ('e \<Rightarrow> string) \<Rightarrow> 'e experiment_call list \<Rightarrow>
   ('ig, 'd) simulator \<Rightarrow> 'x option \<times> ('ig, 'd) simulator" where
  "run_experiments sc str [] s = (None, s)"
| "run_experiments sc str (c # cs) s =
     (case raised (run_experiment sc str c s) of
        Some x \<Rightarrow> (Some x, sim_after (run_experiment sc str c s))
      | None \<Rightarrow> run_experiments sc str cs (sim_after (run_experiment sc str c s)))"

subsection \<open>The contract of the solver functions\<close>

text \<open>
  Modelled from the spec: sections 3 and 5 say of the functions of \<open>solver.py\<close>, which
  is missing, that all mechanisms read the graph but never mutate it and that every
  call is side-effect free on its input graph. For the ten functions that the simulator
  calls: whatever the arguments and whether the call returns or raises, the graph is
  after the call what it was before.
\<close>

definition leaves_graph_unchanged :: "('m, 'e, 'd, 'x) solver_calls \<Rightarrow> bool" where
  "leaves_graph_unchanged sc =
     ((\<forall>G ac. snd (call_serial_dictatorship sc G ac) = G) \<and>
      (\<forall>G m ac. snd (call_partial_max_matching sc G m ac) = G) \<and>
      (\<forall>G prio ac. snd (call_modified_max_matching sc G prio ac) = G) \<and>
      (\<forall>G ac. snd (call_top_trading_cycles sc G ac) = G) \<and>
      (\<forall>G eps prio ac. snd (call_epsilon_max_matching sc G eps prio ac) = G) \<and>
      (\<forall>G prio ac. snd (call_twothirds_max_matching sc G prio ac) = G) \<and>
      (\<forall>G ac. snd (call_updated_hybrid_max_matching sc G ac) = G) \<and>
      (\<forall>G M. snd (call_reassign_labels sc G M) = G) \<and>
      (\<forall>G M. snd (call_calculate_distortion sc G M) = G) \<and>
      (\<forall>G M prio. snd (call_calculate_modified_distortion sc G M prio) = G))"

text \<open>
  A solver of the first kind, whose functions are values only, is the solver whose
  calls always return and leave the graph as it is.
\<close>

definition returning :: "('m, 'e, 'd) solver \<Rightarrow> ('m, 'e, 'd, 'x) solver_calls" where
  "returning sv =
     \<lparr>call_serial_dictatorship = (\<lambda>G ac. (Inr (serial_dictatorship sv G ac), G)),
      call_partial_max_matching = (\<lambda>G m ac. (Inr (partial_max_matching sv G m ac), G)),
      call_modified_max_matching = (\<lambda>G prio ac. (Inr (modified_max_matching sv G prio ac), G)),
      call_top_trading_cycles = (\<lambda>G ac. (Inr (top_trading_cycles sv G ac), G)),
      call_epsilon_max_matching =
        (\<lambda>G eps prio ac. (Inr (epsilon_max_matching sv G eps prio ac), G)),
      call_twothirds_max_matching =
        (\<lambda>G prio ac. (Inr (twothirds_max_matching sv G prio ac), G)),
      call_updated_hybrid_max_matching =
        (\<lambda>G ac. (Inr (updated_hybrid_max_matching sv G ac), G)),
      call_reassign_labels = (\<lambda>G M. (Inr (reassign_labels sv G M), G)),
      call_calculate_distortion = (\<lambda>G M. (Inr (calculate_distortion sv G M), G)),
      call_calculate_modified_distortion =
        (\<lambda>G M prio. (Inr (calculate_modified_distortion sv G M prio), G))\<rparr>"

subsection \<open>Two solvers for the instances\<close>

text \<open>
  Modelled from the spec: a solver to run the experiment methods on the two instances.
  Every mechanism returns the first matching of the enumeration, \<open>reassign_labels\<close>
  returns a graph equal to \<open>G\<close>, and both distortion functions are
  \<open>calculate_distortion_spec\<close>, raising where it fails (section 7: when
  \<open>OPT (G) = 0\<close> or the matching is infeasible). No call changes the graph.
\<close>

definition first_matching :: "graph \<Rightarrow> matching" where
  "first_matching G = hd (all_matchings G)"

definition score :: "graph \<Rightarrow> matching \<Rightarrow> unit + distortion" where
  "score G M = (case calculate_distortion_spec G M of None \<Rightarrow> Inl () | Some d \<Rightarrow> Inr d)"

definition example_solver :: "(matching, int, distortion, unit) solver_calls" where
  "example_solver =
     \<lparr>call_serial_dictatorship = (\<lambda>G ac. (Inr (first_matching G), G)),
      call_partial_max_matching = (\<lambda>G m ac. (Inr (first_matching G), G)),
      call_modified_max_matching = (\<lambda>G prio ac. (Inr (first_matching G), G)),
      call_top_trading_cycles = (\<lambda>G ac. (Inr (first_matching G), G)),
      call_epsilon_max_matching = (\<lambda>G eps prio ac. (Inr (first_matching G), G)),
      call_twothirds_max_matching = (\<lambda>G prio ac. (Inr (first_matching G), G)),
      call_updated_hybrid_max_matching = (\<lambda>G ac. (Inr (first_matching G), G)),
      call_reassign_labels = (\<lambda>G M. (Inr G, G)),
      call_calculate_distortion = (\<lambda>G M. (score G M, G)),
      call_calculate_modified_distortion = (\<lambda>G M prio. (score G M, G))\<rparr>"

text \<open>
  The same solver, except that \<open>top_trading_cycles\<close> removes the nodes of the graph it
  is given, against the contract above.
\<close>

definition clearing_solver :: "(matching, int, distortion, unit) solver_calls" where
  "clearing_solver =
     example_solver
       \<lparr>call_top_trading_cycles := (\<lambda>G ac. (Inr (first_matching G), G\<lparr>nodes := []\<rparr>))\<rparr>"


text \<open>
  The calls of one round of the driver's loop (lines 258 to 262) on the example graph,
  with the integer \<open>epsilon = 1\<close> that the driver passes.
\<close>

definition example_calls :: "int experiment_call list" where
  "example_calls =
     [SerialDictatorship 0 ''theta1unitrange'' example_graph None None,
      TopTradingCycles 0 ''theta1unitrange'' example_graph None None,
      EpsilonMaxMatchingPrio 0 ''theta1unitrange'' example_graph 1 ''pareto'' None None,
      UpdatedHybridMaxMatching 0 ''theta1unitrange'' example_graph None None]"

section \<open>Lemmas for the claims\<close>

lemmas experiment_defs =
  serial_dictatorship_experiment_def partial_max_matching_experiment_def
  modified_max_matching_experiment_def top_trading_cycles_experiment_def
  epsilon_max_matching_experiment_def epsilon_max_matching_prio_experiment_def
  twothirds_max_matching_experiment_def updated_hybrid_max_matching_experiment_def

lemmas append_defs =
  append_id_def append_val_index_def append_size_def append_valuation_def
  append_algo_def append_distortion_def incr_id_def



section \<open>What each method scores and records\<close>

text \<open>
  Claim C1. In \<open>updated_hybrid_max_matching_experiment\<close> the value appended to
  \<open>'distortion'\<close> is \<open>calculate_modified_distortion\<close> with \<open>prio = 'pareto'\<close> of the
  graph \<open>G\<close> and the matching that \<open>top_trading_cycles\<close> returns on
  \<open>reassign_labels (G, M)\<close>, where \<open>M\<close> is the first-stage matching of
  \<open>updated_hybrid_max_matching\<close>.
\<close>

theorem updated_hybrid_scores_second_pass_pareto:
  "distortion_hist (history
     (updated_hybrid_max_matching_experiment sv val_index val_type G size_arg agent_cap s)) =
   distortion_hist (history s) @
     [calculate_modified_distortion sv G
        (top_trading_cycles sv
           (reassign_labels sv G (updated_hybrid_max_matching sv G agent_cap)) None)
        ''pareto'']"
  by (simp add: updated_hybrid_max_matching_experiment_def append_defs Let_def)

text \<open>
  Claim C3. The callers of \<open>partial_max_matching\<close> and of \<open>epsilon_max_matching\<close>
  without \<open>prio\<close> are \<open>partial_max_matching_experiment\<close> and
  \<open>epsilon_max_matching_experiment\<close>. In both the matching that is scored is the one
  \<open>top_trading_cycles\<close> returns on \<open>reassign_labels (G, M)\<close>, with \<open>M\<close> the
  first-stage matching.
\<close>

theorem partial_and_epsilon_callers_run_second_pass:
  "distortion_hist (history
       (partial_max_matching_experiment sv val_index val_type G m size_arg agent_cap s)) =
     distortion_hist (history s) @
       [calculate_distortion sv G
          (top_trading_cycles sv
             (reassign_labels sv G (partial_max_matching sv G m agent_cap)) None)] \<and>
   distortion_hist (history
       (epsilon_max_matching_experiment sv str val_index val_type G epsilon size_arg
          agent_cap s)) =
     distortion_hist (history s) @
       [calculate_distortion sv G
          (top_trading_cycles sv
             (reassign_labels sv G (epsilon_max_matching sv G epsilon None agent_cap))
             None)]"
  by (simp add: partial_max_matching_experiment_def epsilon_max_matching_experiment_def
      append_defs Let_def)

text \<open>
  Claim C9. Which distortion function a method calls does not depend on its arguments:
  \<open>serial_dictatorship_experiment\<close> and \<open>top_trading_cycles_experiment\<close> append
  \<open>calculate_modified_distortion (G, M, prio = 'pareto')\<close> for the matching \<open>M\<close> of
  their mechanism, while \<open>partial_max_matching_experiment\<close> and
  \<open>epsilon_max_matching_experiment\<close> append \<open>calculate_distortion (G, M_0)\<close> for the
  matching \<open>M_0\<close> of their second pass.
\<close>

theorem scorer_fixed_per_method:
  "distortion_hist (history
       (serial_dictatorship_experiment sv val_index val_type G size_arg agent_cap s)) =
     distortion_hist (history s) @
       [calculate_modified_distortion sv G (serial_dictatorship sv G agent_cap) ''pareto''] \<and>
   distortion_hist (history
       (top_trading_cycles_experiment sv val_index val_type G size_arg agent_cap s)) =
     distortion_hist (history s) @
       [calculate_modified_distortion sv G (top_trading_cycles sv G agent_cap) ''pareto''] \<and>
   distortion_hist (history
       (partial_max_matching_experiment sv val_index val_type G m size_arg agent_cap s)) =
     distortion_hist (history s) @
       [calculate_distortion sv G
          (top_trading_cycles sv
             (reassign_labels sv G (partial_max_matching sv G m agent_cap)) None)] \<and>
   distortion_hist (history
       (epsilon_max_matching_experiment sv str val_index val_type G epsilon size_arg
          agent_cap s)) =
     distortion_hist (history s) @
       [calculate_distortion sv G
          (top_trading_cycles sv
             (reassign_labels sv G (epsilon_max_matching sv G epsilon None agent_cap))
             None)]"
  by (simp add: serial_dictatorship_experiment_def top_trading_cycles_experiment_def
      partial_max_matching_experiment_def epsilon_max_matching_experiment_def
      append_defs Let_def)

text \<open>
  Claim C10. With \<open>size\<close> omitted, \<open>twothirds_max_matching_experiment\<close> appends
  \<open>None\<close> to \<open>'size'\<close>, and each of the seven other methods appends
  \<open>len(G.nodes)//2\<close>.
\<close>

theorem size_default_missing_in_twothirds:
  "size_hist (history
       (twothirds_max_matching_experiment sv val_index val_type G prio None agent_cap s)) =
     size_hist (history s) @ [None] \<and>
   size_hist (history
       (serial_dictatorship_experiment sv val_index val_type G None agent_cap s)) =
     size_hist (history s) @ [Some (int (length (nodes G)) div 2)] \<and>
   size_hist (history
       (partial_max_matching_experiment sv val_index val_type G m None agent_cap s)) =
     size_hist (history s) @ [Some (int (length (nodes G)) div 2)] \<and>
   size_hist (history
       (modified_max_matching_experiment sv val_index val_type G prio None agent_cap s)) =
     size_hist (history s) @ [Some (int (length (nodes G)) div 2)] \<and>
   size_hist (history
       (top_trading_cycles_experiment sv val_index val_type G None agent_cap s)) =
     size_hist (history s) @ [Some (int (length (nodes G)) div 2)] \<and>
   size_hist (history
       (epsilon_max_matching_experiment sv str val_index val_type G epsilon None agent_cap s)) =
     size_hist (history s) @ [Some (int (length (nodes G)) div 2)] \<and>
   size_hist (history
       (epsilon_max_matching_prio_experiment sv str val_index val_type G epsilon prio None
          agent_cap s)) =
     size_hist (history s) @ [Some (int (length (nodes G)) div 2)] \<and>
   size_hist (history
       (updated_hybrid_max_matching_experiment sv val_index val_type G None agent_cap s)) =
     size_hist (history s) @ [Some (int (length (nodes G)) div 2)]"
  by (simp add: experiment_defs append_defs default_size_def Let_def)

text \<open>
  Claim C8. The string appended to \<open>'algo'\<close> by each method. Three methods append the
  parameter of their algorithm to its name: \<open>m\<close> after \<open>'partial_max_matching_'\<close>,
  \<open>epsilon\<close> after \<open>'epsilon_max_matching'\<close> (with \<open>prio\<close> in between for the prio
  variant), \<open>prio\<close> after \<open>'twothirds_max_matching '\<close>.
  \<open>modified_max_matching_experiment\<close> also takes \<open>prio\<close>, passes it to the mechanism
  and to the scorer, and appends \<open>'modified_max_matching'\<close> whatever \<open>prio\<close> is: the
  calls with \<open>prio = 'pareto'\<close> and with \<open>prio = 'fair'\<close> record the same string.
\<close>

theorem algo_strings_recorded:
  "algo_hist (history
       (partial_max_matching_experiment sv val_index val_type G m size_arg agent_cap s)) =
     algo_hist (history s) @ [''partial_max_matching_'' @ str_int m] \<and>
   algo_hist (history
       (epsilon_max_matching_experiment sv str val_index val_type G epsilon size_arg
          agent_cap s)) =
     algo_hist (history s) @ [''epsilon_max_matching'' @ str epsilon] \<and>
   algo_hist (history
       (epsilon_max_matching_prio_experiment sv str val_index val_type G epsilon prio size_arg
          agent_cap s)) =
     algo_hist (history s) @ [''epsilon_max_matching '' @ prio @ str epsilon] \<and>
   algo_hist (history
       (twothirds_max_matching_experiment sv val_index val_type G prio size_arg agent_cap s)) =
     algo_hist (history s) @ [''twothirds_max_matching '' @ prio] \<and>
   algo_hist (history
       (modified_max_matching_experiment sv val_index val_type G prio size_arg agent_cap s)) =
     algo_hist (history s) @ [''modified_max_matching''] \<and>
   algo_hist (history
       (modified_max_matching_experiment sv val_index val_type G ''pareto'' size_arg
          agent_cap s)) =
   algo_hist (history
       (modified_max_matching_experiment sv val_index val_type G ''fair'' size_arg
          agent_cap s)) \<and>
   algo_hist (history
       (serial_dictatorship_experiment sv val_index val_type G size_arg agent_cap s)) =
     algo_hist (history s) @ [''serial_dictatorship''] \<and>
   algo_hist (history
       (top_trading_cycles_experiment sv val_index val_type G size_arg agent_cap s)) =
     algo_hist (history s) @ [''ttc_matching''] \<and>
   algo_hist (history
       (updated_hybrid_max_matching_experiment sv val_index val_type G size_arg agent_cap s)) =
     algo_hist (history s) @ [''updated_hybrid_max_matching'']"
  by (simp add: experiment_defs append_defs Let_def)

section \<open>The optimum of the specification's distortion engine\<close>

lemma is_matching_distinct: "is_matching M \<Longrightarrow> distinct M"
  by (auto simp: is_matching_def distinct_map)

lemma Nil_in_subseqs: "[] \<in> set (subseqs xs)"
  by (induction xs) (simp_all add: Let_def)

lemma Nil_in_all_matchings: "[] \<in> set (all_matchings G)"
  by (simp add: all_matchings_def is_matching_def Nil_in_subseqs)

lemma all_matchings_feasible:
  assumes "M \<in> set (all_matchings G)"
  shows "feasible G M"
proof -
  from assms have m: "is_matching M" and s: "M \<in> set (subseqs (pairs G))"
    by (simp_all add: all_matchings_def)
  from s have "set M \<in> set ` set (subseqs (pairs G))" by blast
  then have "set M \<subseteq> set (pairs G)" by (simp add: subseqs_powset)
  with m show ?thesis by (simp add: feasible_def)
qed

lemma welfare_set: "distinct M \<Longrightarrow> welfare G M = sum (weight G) (set M)"
  by (simp add: welfare_def sum_list_distinct_conv_sum_set)

text \<open>
  The enumeration misses no welfare: a feasible matching may list its pairs in any
  order, and the sublist of \<open>pairs G\<close> with the same pairs is enumerated.
\<close>

lemma feasible_has_enumerated:
  assumes "feasible G M"
  shows "\<exists>M' \<in> set (all_matchings G). welfare G M' = welfare G M"
proof -
  from assms have m: "is_matching M" and sub: "set M \<subseteq> set (pairs G)"
    by (simp_all add: feasible_def)
  from sub obtain ys where ys: "ys \<in> set (subseqs (pairs G))" and eq: "set ys = set M"
    using subset_subseqs [of "set M" "pairs G"] by auto
  have dp: "distinct (pairs G)" by (simp add: pairs_def)
  from ys dp have dys: "distinct ys" by (rule subseqs_distinctD)
  from m have dM: "distinct M" by (rule is_matching_distinct)
  from m have "inj_on fst (set M)" "inj_on snd (set M)"
    by (simp_all add: is_matching_def distinct_map)
  with eq dys have "is_matching ys"
    by (simp add: is_matching_def distinct_map)
  with ys have "ys \<in> set (all_matchings G)" by (simp add: all_matchings_def)
  moreover have "welfare G ys = welfare G M"
    using dys dM eq by (simp add: welfare_set)
  ultimately show ?thesis by blast
qed

lemma OPT_ge:
  assumes "feasible G M"
  shows "welfare G M \<le> OPT G"
proof -
  from assms obtain M' where "M' \<in> set (all_matchings G)" "welfare G M' = welfare G M"
    using feasible_has_enumerated by blast
  then have "welfare G M \<in> welfare G ` set (all_matchings G)" by (metis imageI)
  then have "welfare G M \<in> set (map (welfare G) (all_matchings G))" by simp
  then show ?thesis unfolding OPT_def by (intro Max_ge) simp_all
qed

lemma OPT_attained: "\<exists>M \<in> set (all_matchings G). welfare G M = OPT G"
proof -
  have ne: "set (map (welfare G) (all_matchings G)) \<noteq> {}"
    using Nil_in_all_matchings [of G] by auto
  have "OPT G \<in> set (map (welfare G) (all_matchings G))"
    unfolding OPT_def by (rule Max_in) (simp, rule ne)
  then show ?thesis by auto
qed

lemma OPT_nonneg: "0 \<le> OPT G"
proof -
  have "feasible G []" by (simp add: feasible_def is_matching_def)
  then have "welfare G [] \<le> OPT G" by (rule OPT_ge)
  then show ?thesis by (simp add: welfare_def)
qed

lemma welfare_nonneg:
  assumes "nonneg_weights G"
  shows "0 \<le> welfare G M"
proof -
  have "0 \<le> weight G e" for e
  proof (cases "map_of (edges G) e")
    case None
    then show ?thesis by (simp add: weight_def)
  next
    case (Some w)
    then have "(e, w) \<in> set (edges G)" by (rule map_of_SomeD)
    with assms have "0 \<le> w" by (auto simp: nonneg_weights_def list_all_iff)
    with Some show ?thesis by (simp add: weight_def)
  qed
  then show ?thesis unfolding welfare_def by (intro sum_list_nonneg) auto
qed

lemma select_in:
  assumes "selects_candidate select" "cands \<noteq> []"
  shows "select prio cands \<in> set cands"
  using assms by (simp add: selects_candidate_def)

lemma first_candidate_selects: "selects_candidate first_candidate"
  by (simp add: selects_candidate_def first_candidate_def)

subsection \<open>The two instances\<close>

lemmas eval_defs = OPT_def all_matchings_def pairs_def is_matching_def welfare_def weight_def
  feasible_def nonneg_weights_def

lemma all_matchings_example:
  "all_matchings example_graph =
     [[(0, 2), (1, 3)], [(0, 2)], [(0, 3), (1, 2)], [(0, 3)], [(1, 2)], [(1, 3)], []]"
  by (simp add: all_matchings_def pairs_def is_matching_def example_graph_def)

lemma OPT_example: "OPT example_graph = 7"
  by (simp add: eval_defs example_graph_def)

lemma OPT_zero_graph: "OPT zero_graph = 0"
  by (simp add: eval_defs zero_graph_def)

section \<open>Claims about the solver core\<close>

text \<open>
  Claim C2, as amended. For every graph \<open>G\<close> with non-negative weights and
  \<open>OPT (G) > 0\<close>, and every matching \<open>M\<close> feasible for \<open>G\<close>,
  \<open>calculate_distortion (G, M)\<close> returns a value that is at least 1 (the unbounded
  sentinel when the welfare of \<open>M\<close> is zero), and the value is 1 if and only if no
  feasible matching of \<open>G\<close> has a larger total weight than \<open>M\<close>.
\<close>

theorem distortion_at_least_one:
  assumes nn: "nonneg_weights G" and f: "feasible G M" and pos: "0 < OPT G"
  shows "\<exists>d. calculate_distortion_spec G M = Some d \<and> at_least_one d \<and>
             (d = Ratio 1 \<longleftrightarrow> (\<forall>M'. feasible G M' \<longrightarrow> welfare G M' \<le> welfare G M))"
proof -
  have le: "welfare G M \<le> OPT G" using f by (rule OPT_ge)
  have w0: "0 \<le> welfare G M" using nn by (rule welfare_nonneg)
  have best: "(\<forall>M'. feasible G M' \<longrightarrow> welfare G M' \<le> welfare G M) \<longleftrightarrow> welfare G M = OPT G"
  proof
    assume a: "\<forall>M'. feasible G M' \<longrightarrow> welfare G M' \<le> welfare G M"
    obtain Mo where "Mo \<in> set (all_matchings G)" and o: "welfare G Mo = OPT G"
      using OPT_attained by blast
    then have "feasible G Mo" by (simp add: all_matchings_feasible)
    with a o have "OPT G \<le> welfare G M" by auto
    with le show "welfare G M = OPT G" by simp
  next
    assume "welfare G M = OPT G"
    then show "\<forall>M'. feasible G M' \<longrightarrow> welfare G M' \<le> welfare G M"
      by (simp add: OPT_ge)
  qed
  show ?thesis
  proof (cases "welfare G M = 0")
    case True
    with f pos have "calculate_distortion_spec G M = Some Unbounded"
      by (simp add: calculate_distortion_spec_def)
    moreover from True pos have "welfare G M \<noteq> OPT G" by simp
    ultimately show ?thesis using best by (simp add: at_least_one_def)
  next
    case False
    with w0 have wpos: "0 < welfare G M" by simp
    from False f pos
    have r: "calculate_distortion_spec G M = Some (Ratio (OPT G / welfare G M))"
      by (simp add: calculate_distortion_spec_def)
    from wpos le have ge: "1 \<le> OPT G / welfare G M" by (simp add: le_divide_eq)
    from wpos have "OPT G / welfare G M = 1 \<longleftrightarrow> welfare G M = OPT G"
      by (auto simp: field_simps)
    with r ge best show ?thesis by (simp add: at_least_one_def)
  qed
qed

text \<open>
  On the example of section 8 the matching \<open>{(0, 3), (1, 2)}\<close> of weight 3 has
  distortion \<open>7 / 3\<close>.
\<close>

theorem distortion_at_least_one_witness:
  "nonneg_weights example_graph \<and> feasible example_graph [(0, 3), (1, 2)] \<and>
   0 < OPT example_graph \<and>
   calculate_distortion_spec example_graph [(0, 3), (1, 2)] = Some (Ratio (7 / 3)) \<and>
   (\<exists>d. calculate_distortion_spec example_graph [(0, 3), (1, 2)] = Some d \<and>
        at_least_one d \<and>
        (d = Ratio 1 \<longleftrightarrow>
           (\<forall>M'. feasible example_graph M' \<longrightarrow>
                 welfare example_graph M' \<le> welfare example_graph [(0, 3), (1, 2)])))"
proof -
  have nn: "nonneg_weights example_graph"
    by (simp add: nonneg_weights_def example_graph_def)
  have f: "feasible example_graph [(0, 3), (1, 2)]"
    by (simp add: feasible_def is_matching_def pairs_def example_graph_def)
  have pos: "0 < OPT example_graph" by (simp add: OPT_example)
  have w: "welfare example_graph [(0, 3), (1, 2)] = 3"
    by (simp add: welfare_def weight_def example_graph_def)
  have v: "calculate_distortion_spec example_graph [(0, 3), (1, 2)] = Some (Ratio (7 / 3))"
    using f by (simp add: calculate_distortion_spec_def OPT_example w)
  from nn f pos v distortion_at_least_one [OF nn f pos] show ?thesis by blast
qed

text \<open>
  Claim C2 as stated fails where \<open>OPT (G) = 0\<close>: on the graph whose only edge has
  weight zero the matching of that edge is feasible and has the maximum total weight,
  and the distortion is not 1 but the failure that section 7 prescribes.
\<close>

theorem distortion_zero_optimum_counterexample:
  "nonneg_weights zero_graph \<and> feasible zero_graph [(0, 1)] \<and>
   welfare zero_graph [(0, 1)] = OPT zero_graph \<and>
   calculate_distortion_spec zero_graph [(0, 1)] = None"
proof -
  have nn: "nonneg_weights zero_graph" by (simp add: nonneg_weights_def zero_graph_def)
  have f: "feasible zero_graph [(0, 1)]"
    by (simp add: feasible_def is_matching_def pairs_def zero_graph_def)
  have w: "welfare zero_graph [(0, 1)] = 0"
    by (simp add: welfare_def weight_def zero_graph_def)
  have v: "calculate_distortion_spec zero_graph [(0, 1)] = None"
    by (simp add: calculate_distortion_spec_def OPT_zero_graph)
  from nn f w v show ?thesis by (simp add: OPT_zero_graph)
qed

text \<open>
  Claim C4. For every graph \<open>G\<close> and every \<open>prio\<close> of the recognized enumeration,
  \<open>modified_max_matching (G, prio)\<close> returns a feasible matching whose total weight is
  \<open>OPT (G)\<close>, the largest total weight of a feasible matching of \<open>G\<close>, whatever rule
  selects among the candidates: \<open>prio\<close> never changes the total weight.
\<close>

theorem modified_max_matching_weight_is_optimum:
  assumes sel: "selects_candidate select" and p: "prio \<in> set recognized_prio"
  shows "\<exists>M. modified_max_matching_spec select G prio = Inr M \<and> feasible G M \<and>
             welfare G M = OPT G \<and> (\<forall>M'. feasible G M' \<longrightarrow> welfare G M' \<le> welfare G M)"
proof -
  let ?cands = "filter (\<lambda>M. welfare G M = OPT G) (all_matchings G)"
  obtain Mo where "Mo \<in> set (all_matchings G)" "welfare G Mo = OPT G"
    using OPT_attained by blast
  then have "Mo \<in> set ?cands" by simp
  then have ne: "?cands \<noteq> []" by (metis empty_iff empty_set)
  then obtain C Cs where c: "?cands = C # Cs" by (cases ?cands) auto
  let ?M = "select prio ?cands"
  have r: "modified_max_matching_spec select G prio = Inr ?M"
    using p by (simp add: modified_max_matching_spec_def c)
  have "?M \<in> set ?cands" using sel ne by (rule select_in)
  then have m: "?M \<in> set (all_matchings G)" and w: "welfare G ?M = OPT G" by simp_all
  from m have "feasible G ?M" by (rule all_matchings_feasible)
  with r w show ?thesis by (metis OPT_ge)
qed

theorem modified_max_matching_weight_is_optimum_witness:
  "selects_candidate first_candidate \<and> ''fair'' \<in> set recognized_prio \<and>
   modified_max_matching_spec first_candidate example_graph ''fair'' = Inr [(0, 2), (1, 3)] \<and>
   (\<exists>M. modified_max_matching_spec first_candidate example_graph ''fair'' = Inr M \<and>
        feasible example_graph M \<and> welfare example_graph M = OPT example_graph \<and>
        (\<forall>M'. feasible example_graph M' \<longrightarrow> welfare example_graph M' \<le> welfare example_graph M))"
proof -
  have p: "''fair'' \<in> set recognized_prio" by (simp add: recognized_prio_def)
  have v: "modified_max_matching_spec first_candidate example_graph ''fair'' =
      Inr [(0, 2), (1, 3)]"
    by (simp add: modified_max_matching_spec_def p all_matchings_example OPT_example
        first_candidate_def)
       (simp add: welfare_def weight_def example_graph_def)
  from first_candidate_selects p v
    modified_max_matching_weight_is_optimum [OF first_candidate_selects p, of example_graph]
  show ?thesis by blast
qed

text \<open>
  Claim C5. For every graph \<open>G\<close>, every \<open>epsilon\<close> in \<open>(0, 1]\<close> and every recognized
  \<open>prio\<close>, \<open>epsilon_max_matching (G, epsilon, prio)\<close> returns a feasible matching
  whose total weight is at least \<open>(1 - epsilon) * OPT (G)\<close>, hence at least
  \<open>1 - epsilon\<close> times the total weight of any feasible matching of \<open>G\<close>.
\<close>

theorem epsilon_max_matching_weight_bound:
  assumes sel: "selects_candidate select" and p: "prio \<in> set recognized_prio"
    and e: "0 < epsilon" "epsilon \<le> 1"
  shows "\<exists>M. epsilon_max_matching_spec select G epsilon prio = Inr M \<and> feasible G M \<and>
             (1 - epsilon) * OPT G \<le> welfare G M \<and>
             (\<forall>M'. feasible G M' \<longrightarrow> (1 - epsilon) * welfare G M' \<le> welfare G M)"
proof -
  let ?cands = "filter (\<lambda>M. (1 - epsilon) * OPT G \<le> welfare G M) (all_matchings G)"
  obtain Mo where mo: "Mo \<in> set (all_matchings G)" "welfare G Mo = OPT G"
    using OPT_attained by blast
  have "(1 - epsilon) * OPT G \<le> 1 * OPT G"
    using e OPT_nonneg [of G] by (intro mult_right_mono) simp_all
  with mo have "Mo \<in> set ?cands" by simp
  then have ne: "?cands \<noteq> []" by (metis empty_iff empty_set)
  then obtain C Cs where c: "?cands = C # Cs" by (cases ?cands) auto
  let ?M = "select prio ?cands"
  have r: "epsilon_max_matching_spec select G epsilon prio = Inr ?M"
    using p e by (simp add: epsilon_max_matching_spec_def c)
  have "?M \<in> set ?cands" using sel ne by (rule select_in)
  then have m: "?M \<in> set (all_matchings G)"
    and w: "(1 - epsilon) * OPT G \<le> welfare G ?M"
    by simp_all
  from m have f: "feasible G ?M" by (rule all_matchings_feasible)
  have "(1 - epsilon) * welfare G M' \<le> welfare G ?M" if "feasible G M'" for M'
  proof -
    from that have "welfare G M' \<le> OPT G" by (rule OPT_ge)
    then have "(1 - epsilon) * welfare G M' \<le> (1 - epsilon) * OPT G"
      using e by (intro mult_left_mono) simp_all
    with w show ?thesis by simp
  qed
  with r f w show ?thesis by blast
qed

text \<open>
  With \<open>epsilon = 3 / 5\<close> the bound on the example is \<open>2.8\<close>; the candidates are the
  four matchings of weight 7, 3, 3 and 4, and the first is returned.
\<close>

theorem epsilon_max_matching_weight_bound_witness:
  "selects_candidate first_candidate \<and> ''pareto'' \<in> set recognized_prio \<and>
   (0::real) < 3 / 5 \<and> (3 / 5 :: real) \<le> 1 \<and>
   epsilon_max_matching_spec first_candidate example_graph (3 / 5) ''pareto'' =
     Inr [(0, 2), (1, 3)] \<and>
   (\<exists>M. epsilon_max_matching_spec first_candidate example_graph (3 / 5) ''pareto'' = Inr M \<and>
        feasible example_graph M \<and>
        (1 - 3 / 5) * OPT example_graph \<le> welfare example_graph M \<and>
        (\<forall>M'. feasible example_graph M' \<longrightarrow>
              (1 - 3 / 5) * welfare example_graph M' \<le> welfare example_graph M))"
proof -
  have p: "''pareto'' \<in> set recognized_prio" by (simp add: recognized_prio_def)
  have e: "(0::real) < 3 / 5" "(3 / 5 :: real) \<le> 1" by simp_all
  have v: "epsilon_max_matching_spec first_candidate example_graph (3 / 5) ''pareto'' =
      Inr [(0, 2), (1, 3)]"
    by (simp add: epsilon_max_matching_spec_def p all_matchings_example OPT_example
        first_candidate_def)
       (simp add: welfare_def weight_def example_graph_def)
  from first_candidate_selects p e v
    epsilon_max_matching_weight_bound [OF first_candidate_selects p e, of example_graph]
  show ?thesis by blast
qed

section \<open>Experiment calls with effects: history and frame\<close>

lemmas call_experiment_defs =
  call_serial_dictatorship_experiment_def call_partial_max_matching_experiment_def
  call_modified_max_matching_experiment_def call_top_trading_cycles_experiment_def
  call_epsilon_max_matching_experiment_def call_epsilon_max_matching_prio_experiment_def
  call_twothirds_max_matching_experiment_def call_updated_hybrid_max_matching_experiment_def

text \<open>A call that returns has made all seven updates, in this order.\<close>

lemma returned_call_appends_row:
  assumes "raised (run_experiment sc str c s) = None"
  shows "\<exists>vi sz vt al d. sim_after (run_experiment sc str c s) =
           append_distortion d (append_algo al (append_valuation vt (append_size sz
             (append_val_index vi (incr_id (append_id (sim_id s) s))))))"
  using assms
  by (cases c; auto simp: call_experiment_defs Let_def split: prod.splits sum.splits; blast)

lemma returned_call_step:
  assumes "raised (run_experiment sc str c s) = None"
  shows "id_hist (history (sim_after (run_experiment sc str c s))) =
           id_hist (history s) @ [sim_id s]"
    and "\<exists>v. val_index_hist (history (sim_after (run_experiment sc str c s))) =
           val_index_hist (history s) @ [v]"
    and "\<exists>v. size_hist (history (sim_after (run_experiment sc str c s))) =
           size_hist (history s) @ [v]"
    and "\<exists>v. valuation_hist (history (sim_after (run_experiment sc str c s))) =
           valuation_hist (history s) @ [v]"
    and "\<exists>v. algo_hist (history (sim_after (run_experiment sc str c s))) =
           algo_hist (history s) @ [v]"
    and "\<exists>v. distortion_hist (history (sim_after (run_experiment sc str c s))) =
           distortion_hist (history s) @ [v]"
    and "sim_id (sim_after (run_experiment sc str c s)) = sim_id s + 1"
proof -
  from assms obtain vi sz vt al d where
    r: "sim_after (run_experiment sc str c s) =
          append_distortion d (append_algo al (append_valuation vt (append_size sz
            (append_val_index vi (incr_id (append_id (sim_id s) s))))))"
    using returned_call_appends_row by blast
  show "id_hist (history (sim_after (run_experiment sc str c s))) =
          id_hist (history s) @ [sim_id s]"
    by (simp add: r append_defs)
  show "\<exists>v. val_index_hist (history (sim_after (run_experiment sc str c s))) =
          val_index_hist (history s) @ [v]"
    by (simp add: r append_defs)
  show "\<exists>v. size_hist (history (sim_after (run_experiment sc str c s))) =
          size_hist (history s) @ [v]"
    by (simp add: r append_defs)
  show "\<exists>v. valuation_hist (history (sim_after (run_experiment sc str c s))) =
          valuation_hist (history s) @ [v]"
    by (simp add: r append_defs)
  show "\<exists>v. algo_hist (history (sim_after (run_experiment sc str c s))) =
          algo_hist (history s) @ [v]"
    by (simp add: r append_defs)
  show "\<exists>v. distortion_hist (history (sim_after (run_experiment sc str c s))) =
          distortion_hist (history s) @ [v]"
    by (simp add: r append_defs)
  show "sim_id (sim_after (run_experiment sc str c s)) = sim_id s + 1"
    by (simp add: r append_defs)
qed

lemma ids_from_one: "map (\<lambda>k. 1 + int k) [0..<n] = [1..int n]"
proof (induction n)
  case 0
  show ?case by simp
next
  case (Suc n)
  have "[1..int (Suc n)] = [1..int n] @ [int n + 1]"
    by (simp add: upto_rec2 add.commute)
  with Suc show ?case by (simp add: add.commute)
qed

text \<open>Any number of calls, none of which raises, from any simulator.\<close>

lemma returned_calls_rows:
  assumes "fst (run_experiments sc str cs s) = None"
  shows "id_hist (history (snd (run_experiments sc str cs s))) =
           id_hist (history s) @ map (\<lambda>k. sim_id s + int k) [0..<length cs] \<and>
         sim_id (snd (run_experiments sc str cs s)) = sim_id s + int (length cs) \<and>
         length (val_index_hist (history (snd (run_experiments sc str cs s)))) =
           length (val_index_hist (history s)) + length cs \<and>
         length (size_hist (history (snd (run_experiments sc str cs s)))) =
           length (size_hist (history s)) + length cs \<and>
         length (valuation_hist (history (snd (run_experiments sc str cs s)))) =
           length (valuation_hist (history s)) + length cs \<and>
         length (algo_hist (history (snd (run_experiments sc str cs s)))) =
           length (algo_hist (history s)) + length cs \<and>
         length (distortion_hist (history (snd (run_experiments sc str cs s)))) =
           length (distortion_hist (history s)) + length cs"
  using assms
proof (induction cs arbitrary: s)
  case Nil
  show ?case by simp
next
  case (Cons c cs)
  let ?o = "run_experiment sc str c s"
  from Cons.prems have ret: "raised ?o = None"
    by (cases "raised ?o") simp_all
  with Cons.prems have rest: "fst (run_experiments sc str cs (sim_after ?o)) = None"
    by simp
  from ret have unfold: "run_experiments sc str (c # cs) s =
      run_experiments sc str cs (sim_after ?o)"
    by simp
  note step = returned_call_step [OF ret]
  note ih = Cons.IH [OF rest]
  have shift: "map (\<lambda>k. sim_id s + 1 + int k) [0..<length cs] =
               map (\<lambda>k. sim_id s + int k) [Suc 0..<Suc (length cs)]"
    by (simp add: map_Suc_upt [symmetric] del: upt_Suc)
  have first: "[0..<Suc (length cs)] = 0 # [Suc 0..<Suc (length cs)]"
    by (simp add: upt_rec)
  have ids: "id_hist (history (snd (run_experiments sc str (c # cs) s))) =
      id_hist (history s) @ map (\<lambda>k. sim_id s + int k) [0..<length (c # cs)]"
    using ih step(1) step(7) by (simp add: unfold shift first del: upt_Suc run_experiments.simps)
  have cnt: "sim_id (snd (run_experiments sc str (c # cs) s)) = sim_id s + int (length (c # cs))"
    using ih step(7) by (simp add: unfold del: run_experiments.simps)
  from step(2) obtain v2 where "val_index_hist (history (sim_after ?o)) =
      val_index_hist (history s) @ [v2]" by blast
  then have l2: "length (val_index_hist (history (snd (run_experiments sc str (c # cs) s)))) =
      length (val_index_hist (history s)) + length (c # cs)"
    using ih by (simp add: unfold del: run_experiments.simps)
  from step(3) obtain v3 where "size_hist (history (sim_after ?o)) =
      size_hist (history s) @ [v3]" by blast
  then have l3: "length (size_hist (history (snd (run_experiments sc str (c # cs) s)))) =
      length (size_hist (history s)) + length (c # cs)"
    using ih by (simp add: unfold del: run_experiments.simps)
  from step(4) obtain v4 where "valuation_hist (history (sim_after ?o)) =
      valuation_hist (history s) @ [v4]" by blast
  then have l4: "length (valuation_hist (history (snd (run_experiments sc str (c # cs) s)))) =
      length (valuation_hist (history s)) + length (c # cs)"
    using ih by (simp add: unfold del: run_experiments.simps)
  from step(5) obtain v5 where "algo_hist (history (sim_after ?o)) =
      algo_hist (history s) @ [v5]" by blast
  then have l5: "length (algo_hist (history (snd (run_experiments sc str (c # cs) s)))) =
      length (algo_hist (history s)) + length (c # cs)"
    using ih by (simp add: unfold del: run_experiments.simps)
  from step(6) obtain v6 where "distortion_hist (history (sim_after ?o)) =
      distortion_hist (history s) @ [v6]" by blast
  then have l6: "length (distortion_hist (history (snd (run_experiments sc str (c # cs) s)))) =
      length (distortion_hist (history s)) + length (c # cs)"
    using ih by (simp add: unfold del: run_experiments.simps)
  from ids cnt l2 l3 l4 l5 l6 show ?case by blast
qed





subsection \<open>The two solvers on the two instances\<close>

lemma first_matching_example: "first_matching example_graph = [(0, 2), (1, 3)]"
  by (simp add: first_matching_def all_matchings_example)

lemma score_example: "score example_graph [(0, 2), (1, 3)] = Inr (Ratio 1)"
proof -
  have f: "feasible example_graph [(0, 2), (1, 3)]"
    by (simp add: feasible_def is_matching_def pairs_def example_graph_def)
  have w: "welfare example_graph [(0, 2), (1, 3)] = 7"
    by (simp add: welfare_def weight_def example_graph_def)
  show ?thesis
    using f by (simp add: score_def calculate_distortion_spec_def OPT_example w)
qed

lemma first_matching_zero_graph: "first_matching zero_graph = [(0, 1)]"
  by (simp add: first_matching_def all_matchings_def pairs_def is_matching_def zero_graph_def)

lemma score_zero_graph: "score zero_graph M = Inl ()"
  by (simp add: score_def calculate_distortion_spec_def OPT_zero_graph)


lemma example_solver_returns:
  assumes "graph_of c = example_graph"
  shows "raised (run_experiment example_solver str c s) = None"
  using assms
  by (cases c)
     (simp_all add: call_experiment_defs example_solver_def first_matching_example
        score_example Let_def)

lemma example_solver_returns_all:
  assumes "list_all (\<lambda>c. graph_of c = example_graph) cs"
  shows "fst (run_experiments example_solver str cs s) = None"
  using assms
proof (induction cs arbitrary: s)
  case Nil
  show ?case by simp
next
  case (Cons c cs)
  from Cons.prems have "raised (run_experiment example_solver str c s) = None"
    by (simp add: example_solver_returns)
  with Cons show ?case by simp
qed

lemma example_calls_return:
  "fst (run_experiments example_solver str_int example_calls s) = None"
  by (rule example_solver_returns_all) (simp add: example_calls_def)

text \<open>
  The first kind of solver is the special case: with \<open>returning sv\<close> every method
  returns, leaves the graph, and makes the simulator of the value-only definition.
\<close>

lemma returning_leaves_graph: "leaves_graph_unchanged (returning sv)"
  by (simp add: leaves_graph_unchanged_def returning_def)

lemma returning_experiments:
  "call_serial_dictatorship_experiment (returning sv) vi vt G sz ac s =
     \<lparr>raised = None, graph_after = G,
      sim_after = serial_dictatorship_experiment sv vi vt G sz ac s\<rparr>"
  "call_partial_max_matching_experiment (returning sv) vi vt G m sz ac s =
     \<lparr>raised = None, graph_after = G,
      sim_after = partial_max_matching_experiment sv vi vt G m sz ac s\<rparr>"
  "call_modified_max_matching_experiment (returning sv) vi vt G prio sz ac s =
     \<lparr>raised = None, graph_after = G,
      sim_after = modified_max_matching_experiment sv vi vt G prio sz ac s\<rparr>"
  "call_top_trading_cycles_experiment (returning sv) vi vt G sz ac s =
     \<lparr>raised = None, graph_after = G,
      sim_after = top_trading_cycles_experiment sv vi vt G sz ac s\<rparr>"
  "call_epsilon_max_matching_experiment (returning sv) str vi vt G eps sz ac s =
     \<lparr>raised = None, graph_after = G,
      sim_after = epsilon_max_matching_experiment sv str vi vt G eps sz ac s\<rparr>"
  "call_epsilon_max_matching_prio_experiment (returning sv) str vi vt G eps prio sz ac s =
     \<lparr>raised = None, graph_after = G,
      sim_after = epsilon_max_matching_prio_experiment sv str vi vt G eps prio sz ac s\<rparr>"
  "call_twothirds_max_matching_experiment (returning sv) vi vt G prio sz ac s =
     \<lparr>raised = None, graph_after = G,
      sim_after = twothirds_max_matching_experiment sv vi vt G prio sz ac s\<rparr>"
  "call_updated_hybrid_max_matching_experiment (returning sv) vi vt G sz ac s =
     \<lparr>raised = None, graph_after = G,
      sim_after = updated_hybrid_max_matching_experiment sv vi vt G sz ac s\<rparr>"
  by (simp_all add: call_experiment_defs experiment_defs returning_def Let_def)

text \<open>
  The contract is needed: a \<open>top_trading_cycles\<close> that empties the graph it is given
  breaks it, and \<open>top_trading_cycles_experiment\<close> then leaves \<open>G\<close> changed.
\<close>

lemma clearing_solver_changes_graph:
  "\<not> leaves_graph_unchanged clearing_solver \<and>
   graph_after (run_experiment clearing_solver str_int
     (TopTradingCycles 0 ''theta1unitrange'' example_graph None None)
     (Simulator_init ())) \<noteq> example_graph"
proof -
  have "snd (call_top_trading_cycles clearing_solver example_graph None) \<noteq> example_graph"
    by (simp add: clearing_solver_def example_graph_def)
  then have a: "\<not> leaves_graph_unchanged clearing_solver"
    unfolding leaves_graph_unchanged_def by blast
  have b: "graph_after (run_experiment clearing_solver str_int
     (TopTradingCycles 0 ''theta1unitrange'' example_graph None None)
     (Simulator_init ())) \<noteq> example_graph"
    by (simp add: call_top_trading_cycles_experiment_def clearing_solver_def example_solver_def
        score_def Let_def example_graph_def split: option.splits)
  from a b show ?thesis by blast
qed

section \<open>The history log\<close>

text \<open>
  Claim C6, as amended. Every experiment call that returns appends exactly one value to
  each of the six history lists (to \<open>'id'\<close> the current counter) and adds one to the
  counter. Hence after any list \<open>cs\<close> of experiment calls on a fresh simulator, none of
  which raises, the six lists all have length \<open>length cs\<close>, the recorded ids are
  \<open>1, 2, ..., length cs\<close> in this order, and the counter is \<open>length cs + 1\<close>.
\<close>

theorem returning_calls_grow_history_in_step:
  fixes sc :: "('m, 'e, 'd, 'x) solver_calls" and s :: "('ig, 'd) simulator" and ig :: 'ig
  shows
  "(raised (run_experiment sc str c s) = None \<longrightarrow>
      id_hist (history (sim_after (run_experiment sc str c s))) =
        id_hist (history s) @ [sim_id s] \<and>
      (\<exists>v. val_index_hist (history (sim_after (run_experiment sc str c s))) =
        val_index_hist (history s) @ [v]) \<and>
      (\<exists>v. size_hist (history (sim_after (run_experiment sc str c s))) =
        size_hist (history s) @ [v]) \<and>
      (\<exists>v. valuation_hist (history (sim_after (run_experiment sc str c s))) =
        valuation_hist (history s) @ [v]) \<and>
      (\<exists>v. algo_hist (history (sim_after (run_experiment sc str c s))) =
        algo_hist (history s) @ [v]) \<and>
      (\<exists>v. distortion_hist (history (sim_after (run_experiment sc str c s))) =
        distortion_hist (history s) @ [v]) \<and>
      sim_id (sim_after (run_experiment sc str c s)) = sim_id s + 1) \<and>
   (fst (run_experiments sc str cs (Simulator_init ig :: ('ig, 'd) simulator)) = None \<longrightarrow>
      id_hist (history (snd (run_experiments sc str cs
        (Simulator_init ig :: ('ig, 'd) simulator)))) = [1..int (length cs)] \<and>
      length (val_index_hist (history (snd (run_experiments sc str cs
        (Simulator_init ig :: ('ig, 'd) simulator))))) = length cs \<and>
      length (size_hist (history (snd (run_experiments sc str cs
        (Simulator_init ig :: ('ig, 'd) simulator))))) = length cs \<and>
      length (valuation_hist (history (snd (run_experiments sc str cs
        (Simulator_init ig :: ('ig, 'd) simulator))))) = length cs \<and>
      length (algo_hist (history (snd (run_experiments sc str cs
        (Simulator_init ig :: ('ig, 'd) simulator))))) = length cs \<and>
      length (distortion_hist (history (snd (run_experiments sc str cs
        (Simulator_init ig :: ('ig, 'd) simulator))))) = length cs \<and>
      sim_id (snd (run_experiments sc str cs (Simulator_init ig :: ('ig, 'd) simulator))) =
        int (length cs) + 1)"
proof (intro conjI impI)
  let ?s0 = "Simulator_init ig :: ('ig, 'd) simulator"
  have init: "id_hist (history ?s0) = []" "val_index_hist (history ?s0) = []"
    "size_hist (history ?s0) = []" "valuation_hist (history ?s0) = []"
    "algo_hist (history ?s0) = []" "distortion_hist (history ?s0) = []" "sim_id ?s0 = 1"
    by (simp_all add: Simulator_init_def)
  {
    assume ret: "raised (run_experiment sc str c s) = None"
    show "id_hist (history (sim_after (run_experiment sc str c s))) =
        id_hist (history s) @ [sim_id s]"
      by (rule returned_call_step(1) [OF ret])
    show "\<exists>v. val_index_hist (history (sim_after (run_experiment sc str c s))) =
        val_index_hist (history s) @ [v]"
      by (rule returned_call_step(2) [OF ret])
    show "\<exists>v. size_hist (history (sim_after (run_experiment sc str c s))) =
        size_hist (history s) @ [v]"
      by (rule returned_call_step(3) [OF ret])
    show "\<exists>v. valuation_hist (history (sim_after (run_experiment sc str c s))) =
        valuation_hist (history s) @ [v]"
      by (rule returned_call_step(4) [OF ret])
    show "\<exists>v. algo_hist (history (sim_after (run_experiment sc str c s))) =
        algo_hist (history s) @ [v]"
      by (rule returned_call_step(5) [OF ret])
    show "\<exists>v. distortion_hist (history (sim_after (run_experiment sc str c s))) =
        distortion_hist (history s) @ [v]"
      by (rule returned_call_step(6) [OF ret])
    show "sim_id (sim_after (run_experiment sc str c s)) = sim_id s + 1"
      by (rule returned_call_step(7) [OF ret])
  }
  {
    assume all: "fst (run_experiments sc str cs ?s0) = None"
    note rows = returned_calls_rows [OF all]
    show "id_hist (history (snd (run_experiments sc str cs ?s0))) = [1..int (length cs)]"
      using rows by (simp add: init ids_from_one)
    show "length (val_index_hist (history (snd (run_experiments sc str cs ?s0)))) = length cs"
      using rows by (simp add: init)
    show "length (size_hist (history (snd (run_experiments sc str cs ?s0)))) = length cs"
      using rows by (simp add: init)
    show "length (valuation_hist (history (snd (run_experiments sc str cs ?s0)))) = length cs"
      using rows by (simp add: init)
    show "length (algo_hist (history (snd (run_experiments sc str cs ?s0)))) = length cs"
      using rows by (simp add: init)
    show "length (distortion_hist (history (snd (run_experiments sc str cs ?s0)))) = length cs"
      using rows by (simp add: init)
    show "sim_id (snd (run_experiments sc str cs ?s0)) = int (length cs) + 1"
      using rows by (simp add: init)
  }
qed

text \<open>
  One round of the driver's calls on the example graph: every call returns, and the log
  has four rows with the ids 1 to 4.
\<close>

theorem returning_calls_grow_history_in_step_witness:
  "raised (run_experiment example_solver str_int
      (SerialDictatorship 0 ''theta1unitrange'' example_graph None None)
      (Simulator_init ())) = None \<and>
   fst (run_experiments example_solver str_int example_calls (Simulator_init ())) = None \<and>
   id_hist (history (sim_after (run_experiment example_solver str_int
      (SerialDictatorship 0 ''theta1unitrange'' example_graph None None)
      (Simulator_init ())))) = [1] \<and>
   (\<exists>v. distortion_hist (history (sim_after (run_experiment example_solver str_int
      (SerialDictatorship 0 ''theta1unitrange'' example_graph None None)
      (Simulator_init ())))) = [v]) \<and>
   id_hist (history (snd (run_experiments example_solver str_int example_calls
      (Simulator_init ())))) = [1..int (length example_calls)] \<and>
   length (val_index_hist (history (snd (run_experiments example_solver str_int example_calls
      (Simulator_init ()))))) = length example_calls \<and>
   length (size_hist (history (snd (run_experiments example_solver str_int example_calls
      (Simulator_init ()))))) = length example_calls \<and>
   length (valuation_hist (history (snd (run_experiments example_solver str_int example_calls
      (Simulator_init ()))))) = length example_calls \<and>
   length (algo_hist (history (snd (run_experiments example_solver str_int example_calls
      (Simulator_init ()))))) = length example_calls \<and>
   length (distortion_hist (history (snd (run_experiments example_solver str_int example_calls
      (Simulator_init ()))))) = length example_calls \<and>
   sim_id (snd (run_experiments example_solver str_int example_calls (Simulator_init ()))) =
      int (length example_calls) + 1 \<and>
   length example_calls = 4"
proof -
  let ?c = "SerialDictatorship 0 ''theta1unitrange'' example_graph None None :: int experiment_call"
  let ?s0 = "Simulator_init () :: (unit, distortion) simulator"
  have h1: "raised (run_experiment example_solver str_int ?c ?s0) = None"
    by (rule example_solver_returns) simp
  have h2: "fst (run_experiments example_solver str_int example_calls ?s0) = None"
    by (rule example_calls_return)
  have n: "length example_calls = 4" by (simp add: example_calls_def)
  note t = returning_calls_grow_history_in_step
    [where sc = example_solver and str = str_int and c = ?c and s = ?s0
       and cs = example_calls and ig = "()"]
  note a = t [THEN conjunct1, THEN mp, OF h1]
  note b = t [THEN conjunct2, THEN mp, OF h2]
  have init: "id_hist (history ?s0) = []" "distortion_hist (history ?s0) = []" "sim_id ?s0 = 1"
    by (simp_all add: Simulator_init_def)
  from a have a1: "id_hist (history (sim_after (run_experiment example_solver str_int ?c ?s0))) =
      [1]"
    by (simp only: init append_Nil)
  from a have a2: "\<exists>v. distortion_hist (history (sim_after
      (run_experiment example_solver str_int ?c ?s0))) = [v]"
    by (simp only: init append_Nil)
  from a1 a2 b h1 h2 n show ?thesis by blast
qed

text \<open>
  Claim C6 as stated fails when a distortion function raises. Every method evaluates
  it inside the last \<open>append\<close>, after the five other lists were appended and the counter
  was increased. On the graph with \<open>OPT = 0\<close>, where section 7 of the specification makes
  the distortion functions fail, one call of \<open>serial_dictatorship_experiment\<close> on a fresh
  simulator raises and leaves five lists of length 1, an empty \<open>'distortion'\<close> list, and
  the counter at 2.
\<close>

theorem raising_scorer_leaves_history_lists_unequal:
  "fst (run_experiments example_solver str_int
      [SerialDictatorship 0 ''theta1unitrange'' zero_graph None None]
      (Simulator_init ())) = Some () \<and>
   length (id_hist (history (snd (run_experiments example_solver str_int
      [SerialDictatorship 0 ''theta1unitrange'' zero_graph None None]
      (Simulator_init ()))))) = 1 \<and>
   length (val_index_hist (history (snd (run_experiments example_solver str_int
      [SerialDictatorship 0 ''theta1unitrange'' zero_graph None None]
      (Simulator_init ()))))) = 1 \<and>
   length (size_hist (history (snd (run_experiments example_solver str_int
      [SerialDictatorship 0 ''theta1unitrange'' zero_graph None None]
      (Simulator_init ()))))) = 1 \<and>
   length (valuation_hist (history (snd (run_experiments example_solver str_int
      [SerialDictatorship 0 ''theta1unitrange'' zero_graph None None]
      (Simulator_init ()))))) = 1 \<and>
   length (algo_hist (history (snd (run_experiments example_solver str_int
      [SerialDictatorship 0 ''theta1unitrange'' zero_graph None None]
      (Simulator_init ()))))) = 1 \<and>
   length (distortion_hist (history (snd (run_experiments example_solver str_int
      [SerialDictatorship 0 ''theta1unitrange'' zero_graph None None]
      (Simulator_init ()))))) = 0 \<and>
   sim_id (snd (run_experiments example_solver str_int
      [SerialDictatorship 0 ''theta1unitrange'' zero_graph None None]
      (Simulator_init ()))) = 2"
  by (simp add: call_serial_dictatorship_experiment_def example_solver_def
      first_matching_zero_graph score_zero_graph append_defs Simulator_init_def Let_def)

section \<open>The frame of an experiment call\<close>



end
